theory Spec2Isabelle
  imports Complex_Main
begin

section \<open>Go values: errors, panics and process exit\<close>

text \<open>
  A non-nil Go \<open>error\<close> is a value of type \<open>error\<close>; a possibly nil one is an
  \<open>error option\<close>. A function of particeps.go either returns, or panics at run time
  (an index out of range), or ends the process (\<open>log.Fatalln\<close>).
\<close>

datatype error = Error string

datatype panic = IndexOutOfRange int nat

datatype 'a outcome = Returns 'a | Panics panic | Exits

section \<open>Response types\<close>

text \<open>
  Modelled from the spec: the declarations of \<open>UniversalResponse\<close>,
  \<open>AnonFilesSuccess\<close> and \<open>FilebinSuccess\<close> are not in particeps.go. The fields are
  the ones particeps.go reads and writes; the spec gives their types:
  \<open>{status: bool, data: {file: {url: {full: string, short: string}}}}\<close> for the two
  file hosts, \<open>{links: [{href: string}, ...]}\<close> (a sequence, a Go slice) for filebin,
  and \<open>{status, fullURL, shortURL}\<close> for the normalised result.
\<close>

record AnonFilesURL =
  Full :: string
  Short :: string

record AnonFilesFile =
  URL :: AnonFilesURL

record AnonFilesData =
  File :: AnonFilesFile

record AnonFilesSuccess =
  Status :: bool
  Data :: AnonFilesData

record FilebinLink =
  Href :: string

record FilebinSuccess =
  Links :: "FilebinLink list"

record UniversalResponse =
  Status :: bool
  FullURL :: string
  ShortURL :: string

section \<open>float64\<close>

text \<open>
  A \<open>float64\<close> is a finite number, an infinity or NaN; the two zeros are one value.
  The result of an arithmetic operation on finite operands is the exact result rounded to
  the nearest float64, a tie going to the even significand, and an infinity past the
  largest finite value (IEEE 754, round to nearest even). The rules for the infinities
  and NaN are those of IEEE 754.
\<close>

datatype float64 = Finite real | PosInf | NegInf | NaN

text \<open>The nearest integer, a tie going to the even one.\<close>

definition roundEven :: "real \<Rightarrow> int" where
  "roundEven m =
     (let f = \<lfloor>m\<rfloor>; d = m - of_int f in
      if d < 1 / 2 then f else if 1 / 2 < d then f + 1
      else if even f then f else f + 1)"

text \<open>
  The float64 nearest to a real number. The significand has 53 bits, so with
  \<open>2^e \<le> |x| < 2^(e+1)\<close> the float64 values near \<open>x\<close> are the multiples of \<open>2^(e-52)\<close>;
  below \<open>2^-1022\<close> (subnormal numbers) they are the multiples of \<open>2^-1074\<close>. A rounded
  magnitude of \<open>2^1024\<close> or more is an infinity.
\<close>

definition float64_of :: "real \<Rightarrow> float64" where
  "float64_of x =
     (if x = 0 then Finite 0
      else let e = max \<lfloor>log 2 \<bar>x\<bar>\<rfloor> (- 1022) - 52;
               r = of_int (roundEven (x / 2 powr (of_int e))) * 2 powr (of_int e)
           in if 2 ^ 1024 \<le> \<bar>r\<bar> then (if 0 < x then PosInf else NegInf) else Finite r)"

fun fmul :: "float64 \<Rightarrow> float64 \<Rightarrow> float64" where
  "fmul (Finite x) (Finite y) = float64_of (x * y)"
| "fmul NaN _ = NaN"
| "fmul _ NaN = NaN"
| "fmul (Finite x) PosInf = (if x = 0 then NaN else if 0 < x then PosInf else NegInf)"
| "fmul (Finite x) NegInf = (if x = 0 then NaN else if 0 < x then NegInf else PosInf)"
| "fmul PosInf (Finite y) = (if y = 0 then NaN else if 0 < y then PosInf else NegInf)"
| "fmul NegInf (Finite y) = (if y = 0 then NaN else if 0 < y then NegInf else PosInf)"
| "fmul PosInf PosInf = PosInf"
| "fmul PosInf NegInf = NegInf"
| "fmul NegInf PosInf = NegInf"
| "fmul NegInf NegInf = PosInf"

text \<open>Division; a zero divisor is taken as +0.\<close>

fun fdiv :: "float64 \<Rightarrow> float64 \<Rightarrow> float64" where
  "fdiv (Finite x) (Finite y) =
     (if y \<noteq> 0 then float64_of (x / y)
      else if x = 0 then NaN else if 0 < x then PosInf else NegInf)"
| "fdiv NaN _ = NaN"
| "fdiv _ NaN = NaN"
| "fdiv (Finite x) PosInf = Finite 0"
| "fdiv (Finite x) NegInf = Finite 0"
| "fdiv PosInf (Finite y) = (if 0 \<le> y then PosInf else NegInf)"
| "fdiv NegInf (Finite y) = (if 0 \<le> y then NegInf else PosInf)"
| "fdiv PosInf PosInf = NaN"
| "fdiv PosInf NegInf = NaN"
| "fdiv NegInf PosInf = NaN"
| "fdiv NegInf NegInf = NaN"

fun fsub :: "float64 \<Rightarrow> float64 \<Rightarrow> float64" where
  "fsub (Finite x) (Finite y) = float64_of (x - y)"
| "fsub NaN _ = NaN"
| "fsub _ NaN = NaN"
| "fsub (Finite x) PosInf = NegInf"
| "fsub (Finite x) NegInf = PosInf"
| "fsub PosInf (Finite y) = PosInf"
| "fsub NegInf (Finite y) = NegInf"
| "fsub PosInf PosInf = NaN"
| "fsub PosInf NegInf = PosInf"
| "fsub NegInf PosInf = NegInf"
| "fsub NegInf NegInf = NaN"

text \<open>The comparison \<open>>=\<close>: false whenever an operand is NaN.\<close>

fun fge :: "float64 \<Rightarrow> float64 \<Rightarrow> bool" where
  "fge (Finite x) (Finite y) = (y \<le> x)"
| "fge NaN _ = False"
| "fge _ NaN = False"
| "fge PosInf _ = True"
| "fge _ NegInf = True"
| "fge (Finite x) PosInf = False"
| "fge NegInf (Finite y) = False"
| "fge NegInf PosInf = False"

text \<open>
  \<open>math.Floor\<close> and \<open>math.Ceil\<close> return an infinity or NaN unchanged; on a float64 the
  integer they return is a float64 again, so nothing is rounded.
\<close>

fun Floor :: "float64 \<Rightarrow> float64" where
  "Floor (Finite x) = Finite (of_int \<lfloor>x\<rfloor>)"
| "Floor x = x"

fun Ceil :: "float64 \<Rightarrow> float64" where
  "Ceil (Finite x) = Finite (of_int \<lceil>x\<rceil>)"
| "Ceil x = x"

text \<open>
  \<open>math.Modf\<close>: the integer and the fractional part, both with the sign of the argument
  and both exact; \<open>Modf(+Inf) = +Inf, NaN\<close>, \<open>Modf(-Inf) = -Inf, NaN\<close> and
  \<open>Modf(NaN) = NaN, NaN\<close>.
\<close>

fun Modf :: "float64 \<Rightarrow> float64 \<times> float64" where
  "Modf (Finite x) =
     (let i = (if 0 \<le> x then of_int \<lfloor>x\<rfloor> else of_int \<lceil>x\<rceil>) in (Finite i, Finite (x - i)))"
| "Modf PosInf = (PosInf, NaN)"
| "Modf NegInf = (NegInf, NaN)"
| "Modf NaN = (NaN, NaN)"

text \<open>
  The conversion \<open>int(f)\<close> truncates towards zero. For a value that \<open>int\<close> cannot
  represent the result depends on the implementation; on amd64 it is the least 64-bit
  integer, and for \<open>-Inf\<close> also on arm64.
\<close>

fun float64_to_int :: "float64 \<Rightarrow> int" where
  "float64_to_int (Finite x) =
     (let i = (if 0 \<le> x then \<lfloor>x\<rfloor> else \<lceil>x\<rceil>) in
      if - (2 ^ 63) \<le> i \<and> i < 2 ^ 63 then i else - (2 ^ 63))"
| "float64_to_int x = - (2 ^ 63)"

section \<open>The world outside the program\<close>

text \<open>
  One multipart part as \<open>mw.CreateFormFile(fieldname, filename)\<close> followed by
  \<open>io.Copy\<close> writes it: the form field's name, the \<open>filename\<close> parameter of its
  Content-Disposition header, and the bytes copied into it.
\<close>

record part =
  FieldName :: string
  FileName :: string
  Content :: string

datatype body = Multipart "part list" | Raw string

record request =
  Method :: string
  Target :: string
  Header :: "(string \<times> string) list"
  Body :: body

text \<open>
  The file system, the network and the functions of the standard library whose results
  the source does not determine are parameters of every function: \<open>os_Stat\<close> gives a
  file's size, \<open>os_Open\<close> the bytes a reader of the opened file delivers, \<open>http_Do\<close> the
  outcome of \<open>ioutil.ReadAll\<close> on the response's body (or the transport's error), and the
  two \<open>json_Unmarshal\<close> fields the result of \<open>json.Unmarshal\<close> into the respective
  struct. \<open>math_Log\<close> is \<open>math.Log\<close> on a finite positive argument, \<open>math_Pow\<close> is
  \<open>math.Pow\<close> on a base above 1 and a finite exponent other than 0 and 1 (neither
  function is correctly rounded, and their results differ between implementations), and
  \<open>strconv_FormatFloat\<close> is \<open>strconv.FormatFloat(x, 'f', -1, 64)\<close> on a finite value.
\<close>

record world =
  os_Stat :: "string \<Rightarrow> error + nat"
  os_Open :: "string \<Rightarrow> error + string"
  mw_CreateFormFile :: "string \<Rightarrow> string \<Rightarrow> error option"
  mw_Boundary :: string
  http_NewRequest :: "string \<Rightarrow> string \<Rightarrow> error option"
  http_Do :: "request \<Rightarrow> error + (error + string)"
  json_Unmarshal_AnonFiles :: "string \<Rightarrow> error + AnonFilesSuccess"
  json_Unmarshal_Filebin :: "string \<Rightarrow> error + FilebinSuccess"
  math_Log :: "real \<Rightarrow> float64"
  math_Pow :: "real \<Rightarrow> real \<Rightarrow> float64"
  strconv_FormatFloat :: "real \<Rightarrow> string"

text \<open>\<open>math.Log\<close>: \<open>Log(+Inf) = +Inf\<close>, \<open>Log(0) = -Inf\<close>, \<open>Log(x < 0) = NaN\<close>, \<open>Log(NaN) = NaN\<close>.\<close>

fun Log :: "world \<Rightarrow> float64 \<Rightarrow> float64" where
  "Log w (Finite x) = (if x = 0 then NegInf else if x < 0 then NaN else math_Log w x)"
| "Log w PosInf = PosInf"
| "Log w NegInf = NaN"
| "Log w NaN = NaN"

text \<open>
  \<open>math.Pow(b, y)\<close> for a base \<open>b > 1\<close>: the source calls it with the literals 10 and
  1024 only. \<open>Pow(b, 0) = 1\<close>, \<open>Pow(b, 1) = b\<close>, \<open>Pow(b, +Inf) = +Inf\<close>,
  \<open>Pow(b, -Inf) = 0\<close>, \<open>Pow(b, NaN) = NaN\<close>.
\<close>

fun Pow :: "world \<Rightarrow> real \<Rightarrow> float64 \<Rightarrow> float64" where
  "Pow w b (Finite y) = (if y = 0 then Finite 1 else if y = 1 then Finite b else math_Pow w b y)"
| "Pow w b PosInf = PosInf"
| "Pow w b NegInf = Finite 0"
| "Pow w b NaN = NaN"

fun FormatFloat :: "world \<Rightarrow> float64 \<Rightarrow> string" where
  "FormatFloat w NaN = ''NaN''"
| "FormatFloat w PosInf = ''+Inf''"
| "FormatFloat w NegInf = ''-Inf''"
| "FormatFloat w (Finite x) = strconv_FormatFloat w x"

definition FormDataContentType :: "world \<Rightarrow> string" where
  "FormDataContentType w = ''multipart/form-data; boundary='' @ mw_Boundary w"

text \<open>\<open>http.Post(url, contentType, body)\<close>: a POST request with the Content-Type header.\<close>

definition http_Post :: "world \<Rightarrow> string \<Rightarrow> string \<Rightarrow> body \<Rightarrow> error + (error + string)" where
  "http_Post w url contentType b =
     http_Do w \<lparr>Method = ''POST'', Target = url,
                Header = [(''Content-Type'', contentType)], Body = b\<rparr>"

text \<open>
  \<open>filepath.Base\<close> with the separator \<open>/\<close>: trailing separators are stripped, the last
  element is returned, \<open>.\<close> for the empty path and \<open>/\<close> for a path of separators only.
\<close>

definition Base :: "string \<Rightarrow> string" where
  "Base path =
     (if path = [] then ''.''
      else let p = rev (dropWhile (\<lambda>c. c = CHR ''/'') (rev path));
               e = rev (takeWhile (\<lambda>c. c \<noteq> CHR ''/'') (rev p))
           in if e = [] then ''/'' else e)"

section \<open>Text-marker extraction\<close>

text \<open>
  \<open>strings.LastIndex(s, substr)\<close>: the index of the last instance of \<open>substr\<close> in
  \<open>s\<close>, or -1; the empty \<open>substr\<close> is found at \<open>len(s)\<close>. The search runs from the
  last possible start downwards.
\<close>

primrec lastIndexFrom :: "string \<Rightarrow> string \<Rightarrow> nat \<Rightarrow> int" where
  "lastIndexFrom s substr 0 = (if take (length substr) s = substr then 0 else - 1)"
| "lastIndexFrom s substr (Suc i) =
     (if take (length substr) (drop (Suc i) s) = substr then int (Suc i)
      else lastIndexFrom s substr i)"

definition LastIndex :: "string \<Rightarrow> string \<Rightarrow> int" where
  "LastIndex s substr =
     (if length s < length substr then - 1
      else lastIndexFrom s substr (length s - length substr))"

definition getStringAfterWord :: "string \<Rightarrow> string \<Rightarrow> string" where
  "getStringAfterWord val word =
     (let pos = LastIndex val word in
      if pos = - 1 then ''''
      else let adjustedPos = pos + int (length word) in
           if adjustedPos \<ge> int (length val) then ''''
           else drop (nat adjustedPos) val)"

section \<open>The upload entry points\<close>

text \<open>
  The multipart body, built by the same statements in \<open>ImagebinUpload\<close> (lines 50 to
  57) and \<open>uploadFile\<close> (lines 98 to 105): \<open>mw.CreateFormFile("file", filename)\<close>
  opens one part whose field is \<open>file\<close> and whose file name is the \<open>filename\<close>
  argument as it stands; \<open>os.Open\<close>'s error is never read, and \<open>io.Copy\<close> from the nil
  file of a failed \<open>os.Open\<close> copies nothing (its error is dropped too), so the part is
  then empty.
\<close>

definition multipartForm :: "world \<Rightarrow> string \<Rightarrow> part list" where
  "multipartForm w filename =
     [\<lparr>FieldName = ''file'', FileName = filename,
       Content = (case os_Open w filename of Inl _ \<Rightarrow> '''' | Inr bytes \<Rightarrow> bytes)\<rparr>]"

definition ImagebinUpload :: "world \<Rightarrow> string \<Rightarrow> (UniversalResponse \<times> error option) outcome" where
  "ImagebinUpload w filename =
     (let result = \<lparr>Status = False, FullURL = '''', ShortURL = ''''\<rparr> in
      case mw_CreateFormFile w ''file'' filename of
        Some err \<Rightarrow> Returns (result, Some err)
      | None \<Rightarrow>
          (let mpb = multipartForm w filename
           in case http_Post w ''https://imagebin.ca/upload.php''
                     (FormDataContentType w) (Multipart mpb) of
                Inl err \<Rightarrow> Returns (result, Some err)
              | Inr (Inl err) \<Rightarrow> Returns (result, Some err)
              | Inr (Inr bdy) \<Rightarrow>
                  (let result = result\<lparr>FullURL := getStringAfterWord bdy ''url:''\<rparr> in
                   if FullURL result = '''' then Returns (result, None)
                   else Returns (result\<lparr>Status := True\<rparr>, None))))"

definition uploadFile :: "world \<Rightarrow> string \<Rightarrow> string \<Rightarrow> (UniversalResponse \<times> error option) outcome" where
  "uploadFile w filename destURI =
     (let returnValue = \<lparr>Status = False, FullURL = '''', ShortURL = ''''\<rparr> in
      case mw_CreateFormFile w ''file'' filename of
        Some err \<Rightarrow> Exits
      | None \<Rightarrow>
          (let mpb = multipartForm w filename
           in case http_Post w destURI (FormDataContentType w) (Multipart mpb) of
                Inl err \<Rightarrow> Returns (returnValue, Some err)
              | Inr (Inl err) \<Rightarrow> Returns (returnValue, Some err)
              | Inr (Inr bdy) \<Rightarrow>
                  (case json_Unmarshal_AnonFiles w bdy of
                     Inl err \<Rightarrow> Returns (returnValue, Some err)
                   | Inr successResponse \<Rightarrow>
                       Returns (returnValue
                         \<lparr>Status := AnonFilesSuccess.Status successResponse,
                          FullURL := Full (URL (File (Data successResponse))),
                          ShortURL := Short (URL (File (Data successResponse)))\<rparr>, None))))"

text \<open>
  The request of \<open>FilebinUpload\<close> (lines 165 to 170): the opened file is the body, the
  header \<open>Filename\<close> carries \<open>filepath.Base(filename)\<close>.
\<close>

definition filebinRequest :: "string \<Rightarrow> string \<Rightarrow> request" where
  "filebinRequest filename f =
     \<lparr>Method = ''POST'', Target = ''https://filebin.net'',
      Header = [(''Filename'', Base filename),
                (''Content-Type'', ''application/x-www-form-urlencoded'')],
      Body = Raw f\<rparr>"

definition FilebinUpload :: "world \<Rightarrow> string \<Rightarrow> (UniversalResponse \<times> error option) outcome" where
  "FilebinUpload w filename =
     (let returnValue = \<lparr>Status = False, FullURL = '''', ShortURL = ''''\<rparr> in
      case os_Open w filename of
        Inl err \<Rightarrow> Returns (returnValue, Some err)
      | Inr f \<Rightarrow>
          (case http_NewRequest w ''POST'' ''https://filebin.net'' of
             Some err \<Rightarrow> Returns (returnValue, Some err)
           | None \<Rightarrow>
               (case http_Do w (filebinRequest filename f) of
                  Inl err \<Rightarrow> Returns (returnValue, Some err)
                | Inr (Inl err) \<Rightarrow> Returns (returnValue, Some err)
                | Inr (Inr bdy) \<Rightarrow>
                    (case json_Unmarshal_Filebin w bdy of
                       Inl err \<Rightarrow> Returns (returnValue, Some err)
                     | Inr successResponse \<Rightarrow>
                         (if length (Links successResponse) \<le> 1
                          then Panics (IndexOutOfRange 1 (length (Links successResponse)))
                          else if Href (Links successResponse ! 1) \<noteq> ''''
                          then Returns (returnValue
                                 \<lparr>FullURL := Href (Links successResponse ! 1),
                                  Status := True\<rparr>, None)
                          else Returns (returnValue, None))))))"

definition BayFilesUpload :: "world \<Rightarrow> string \<Rightarrow> (UniversalResponse \<times> error option) outcome" where
  "BayFilesUpload w filename = uploadFile w filename ''https://api.bayfiles.com/upload''"

definition AnonFilesUpload :: "world \<Rightarrow> string \<Rightarrow> (UniversalResponse \<times> error option) outcome" where
  "AnonFilesUpload w filename = uploadFile w filename ''https://api.anonfiles.com/upload''"

section \<open>The file inspector\<close>

text \<open>
  The source's \<open>round\<close>; its local \<open>div\<close> and \<open>round\<close> are \<open>frac\<close> and \<open>rnd\<close> here.
  \<open>float64(places)\<close> is the conversion of an \<open>int\<close>.
\<close>

definition round_go :: "world \<Rightarrow> float64 \<Rightarrow> float64 \<Rightarrow> int \<Rightarrow> float64" where
  "round_go w val roundOn places =
     (let pow = Pow w 10 (float64_of (of_int places));
          digit = fmul pow val;
          frac = snd (Modf digit);
          rnd = (if fge frac roundOn then Ceil digit else Floor digit)
      in fdiv rnd pow)"

text \<open>
  \<open>suffixes\<close> is an array of length 4: an index outside 0..3 panics, after \<open>size\<close> has
  been computed.
\<close>

definition prettySize :: "world \<Rightarrow> float64 \<Rightarrow> string outcome" where
  "prettySize w sizeInBytes =
     (let suffixes = [''B'', ''KB'', ''MB'', ''GB''];
          base = fdiv (Log w sizeInBytes) (Log w (Finite 1024));
          size = round_go w (Pow w 1024 (fsub base (Floor base))) (Finite (1 / 2)) 2;
          i = float64_to_int (Floor base)
      in if i < 0 \<or> 4 \<le> i then Panics (IndexOutOfRange i 4)
         else Returns (FormatFloat w size @ '' '' @ suffixes ! nat i))"

text \<open>
  \<open>float64(fileInfo.Size())\<close> is the conversion of the size. The line written to
  standard error when \<open>os.Stat\<close> fails is not part of the result.
\<close>

definition CheckFile :: "world \<Rightarrow> string \<Rightarrow> (string \<times> error option) outcome" where
  "CheckFile w filename =
     (case os_Stat w filename of
        Inl err \<Rightarrow> Returns ('''', Some err)
      | Inr sz \<Rightarrow>
          (case prettySize w (float64_of (real sz)) of
             Returns s \<Rightarrow> Returns (s, None)
           | Panics p \<Rightarrow> Panics p
           | Exits \<Rightarrow> Exits))"

section \<open>Reference notions and test worlds\<close>

text \<open>The zero value of \<open>UniversalResponse\<close>.\<close>

definition zeroResponse :: UniversalResponse where
  "zeroResponse = \<lparr>Status = False, FullURL = '''', ShortURL = ''''\<rparr>"


text \<open>
  What \<open>json.Unmarshal\<close> gives on the response bodies used below: a field that the body
  lacks keeps its zero value, and a text that is not JSON is an error.
\<close>

definition decodeAnonFiles :: "string \<Rightarrow> error + AnonFilesSuccess" where
  \<open>decodeAnonFiles b =
     (if b = ''{"status":true}''
      then Inr \<lparr>AnonFilesSuccess.Status = True,
                Data = \<lparr>File = \<lparr>URL = \<lparr>Full = '''', Short = ''''\<rparr>\<rparr>\<rparr>\<rparr>
      else if b = ''{"status":true,"data":{"file":{"url":{"full":"https://anonfiles.com/x","short":"https://afiles.io/x"}}}}''
      then Inr \<lparr>AnonFilesSuccess.Status = True,
                Data = \<lparr>File = \<lparr>URL = \<lparr>Full = ''https://anonfiles.com/x'',
                                        Short = ''https://afiles.io/x''\<rparr>\<rparr>\<rparr>\<rparr>
      else Inl (Error ''invalid character''))\<close>

definition decodeFilebin :: "string \<Rightarrow> error + FilebinSuccess" where
  \<open>decodeFilebin b =
     (if b = ''{"links":[]}'' then Inr \<lparr>Links = []\<rparr>
      else if b = ''{"links":[{"href":"a"}]}'' then Inr \<lparr>Links = [\<lparr>Href = ''a''\<rparr>]\<rparr>
      else if b = ''{"links":[{"href":"a"},{"href":"b"}]}''
      then Inr \<lparr>Links = [\<lparr>Href = ''a''\<rparr>, \<lparr>Href = ''b''\<rparr>]\<rparr>
      else if b = ''{"links":[{"href":"a"},{"href":""}]}''
      then Inr \<lparr>Links = [\<lparr>Href = ''a''\<rparr>, \<lparr>Href = ''''\<rparr>]\<rparr>
      else Inl (Error ''invalid character''))\<close>

text \<open>The decimal digits of a natural number.\<close>

fun showNat :: "nat \<Rightarrow> string" where
  "showNat n =
     (if n < 10 then [''0123456789'' ! n]
      else showNat (n div 10) @ [''0123456789'' ! (n mod 10)])"

declare showNat.simps [simp del]

text \<open>
  The nearest number of at most two decimals, written without trailing zeros: what
  \<open>strconv.FormatFloat(x, 'f', -1, 64)\<close> writes for the float64 nearest to such a number.
\<close>

definition writeHundredths :: "real \<Rightarrow> string" where
  "writeHundredths x =
     (let h = nat \<lfloor>\<bar>x\<bar> * 100 + 1 / 2\<rfloor>; cents = h mod 100 in
      (if x < 0 then ''-'' else '''') @ showNat (h div 100) @
      (if cents = 0 then ''''
       else ''.'' @ [''0123456789'' ! (cents div 10)] @
            (if cents mod 10 = 0 then '''' else [''0123456789'' ! (cents mod 10)])))"

text \<open>
  A world with a file of 10 bytes, an empty file and no other path, whose server answers
  every request with the body \<open>reply\<close>, and whose \<open>math.Log\<close> and \<open>math.Pow\<close> return the
  float64 nearest to the exact value (as \<open>math.Pow(10, 2) = 100\<close> is).
\<close>

definition testWorld :: "string \<Rightarrow> world" where
  "testWorld reply =
     \<lparr>os_Stat = (\<lambda>p. if p = ''/tmp/a.txt'' then Inr 10
                      else if p = ''/tmp/empty'' then Inr 0
                      else Inl (Error ''stat: no such file or directory'')),
      os_Open = (\<lambda>p. if p = ''/tmp/a.txt'' then Inr ''0123456789''
                      else if p = ''/tmp/empty'' then Inr ''''
                      else Inl (Error ''open: no such file or directory'')),
      mw_CreateFormFile = (\<lambda>fieldname filename. None),
      mw_Boundary = ''b0'',
      http_NewRequest = (\<lambda>method url. None),
      http_Do = (\<lambda>req. Inr (Inr reply)),
      json_Unmarshal_AnonFiles = decodeAnonFiles,
      json_Unmarshal_Filebin = decodeFilebin,
      math_Log = (\<lambda>x. float64_of (ln x)),
      math_Pow = (\<lambda>b y. float64_of (b powr y)),
      strconv_FormatFloat = writeHundredths\<rparr>"

text \<open>The same files with no network: every request fails in the transport.\<close>

definition offlineWorld :: world where
  "offlineWorld =
     (testWorld '''')\<lparr>http_Do := (\<lambda>req. Inl (Error ''dial tcp: network is unreachable''))\<rparr>"

text \<open>
  The same files with a server that answers a multipart request with \<open>url:\<close> followed by
  the file name it received in the part.
\<close>

definition echoWorld :: world where
  "echoWorld = (testWorld '''')
     \<lparr>http_Do := (\<lambda>req. case Body req of
                     Multipart ps \<Rightarrow> Inr (Inr (''url:'' @ concat (map FileName ps)))
                   | Raw f \<Rightarrow> Inr (Inr ''''))\<rparr>"

section \<open>Evaluation rules\<close>

lemmas world_simps =
  testWorld_def offlineWorld_def echoWorld_def decodeAnonFiles_def decodeFilebin_def
  http_Post_def FormDataContentType_def multipartForm_def filebinRequest_def

section \<open>The last index\<close>

lemma lastIndexFrom_none:
  "lastIndexFrom s w i = - 1 \<longleftrightarrow> (\<forall>j\<le>i. take (length w) (drop j s) \<noteq> w)"
proof (induction i)
  case 0
  then show ?case by simp
next
  case (Suc i)
  show ?case
  proof (cases "take (length w) (drop (Suc i) s) = w")
    case True
    then show ?thesis by auto
  next
    case False
    then show ?thesis using Suc by (auto simp: le_Suc_eq)
  qed
qed

lemma lastIndexFrom_some:
  "lastIndexFrom s w i = int k \<longleftrightarrow>
     (k \<le> i \<and> take (length w) (drop k s) = w \<and>
      (\<forall>j. k < j \<and> j \<le> i \<longrightarrow> take (length w) (drop j s) \<noteq> w))"
proof (induction i)
  case 0
  then show ?case by auto
next
  case (Suc i)
  show ?case
  proof (cases "take (length w) (drop (Suc i) s) = w")
    case True
    have "lastIndexFrom s w (Suc i) = int k \<longleftrightarrow> k = Suc i"
      using True by (simp only: lastIndexFrom.simps if_True of_nat_eq_iff) auto
    moreover have "k = Suc i \<longleftrightarrow> (k \<le> Suc i \<and> take (length w) (drop k s) = w \<and>
      (\<forall>j. k < j \<and> j \<le> Suc i \<longrightarrow> take (length w) (drop j s) \<noteq> w))"
      using True by (auto simp: le_Suc_eq)
    ultimately show ?thesis by simp
  next
    case False
    then show ?thesis using Suc by (auto simp: le_Suc_eq)
  qed
qed

lemma instance_at:
  assumes "take (length w) (drop k s) = w"
  shows "s = take k s @ w @ drop (k + length w) s"
proof -
  have "drop k s = take (length w) (drop k s) @ drop (length w) (drop k s)"
    by (simp only: append_take_drop_id)
  then have "drop k s = w @ drop (k + length w) s"
    using assms by (simp add: add.commute)
  then show ?thesis
    by (metis append_take_drop_id)
qed

lemma LastIndex_last:
  assumes "s = p @ w @ r" and "\<forall>p' r'. s = p' @ w @ r' \<longrightarrow> length p' \<le> length p"
  shows "LastIndex s w = int (length p)"
proof -
  have len: "length p + length w \<le> length s"
    and here: "take (length w) (drop (length p) s) = w"
    using assms(1) by auto
  have late: "take (length w) (drop j s) \<noteq> w"
    if "length p < j" "j \<le> length s - length w" for j
  proof
    assume "take (length w) (drop j s) = w"
    then have "s = take j s @ w @ drop (j + length w) s" by (rule instance_at)
    then have "length (take j s) \<le> length p" using assms(2) by blast
    moreover have "length (take j s) = j" using that len by simp
    ultimately show False using that by simp
  qed
  have "lastIndexFrom s w (length s - length w) = int (length p)"
    unfolding lastIndexFrom_some using len here late by auto
  then show ?thesis using len by (simp add: LastIndex_def)
qed

lemma LastIndex_none:
  assumes "\<nexists>p r. s = p @ w @ r"
  shows "LastIndex s w = - 1"
proof (cases "length s < length w")
  case True
  then show ?thesis by (simp add: LastIndex_def)
next
  case False
  have "take (length w) (drop j s) \<noteq> w" for j
  proof
    assume "take (length w) (drop j s) = w"
    then have "s = take j s @ w @ drop (j + length w) s" by (rule instance_at)
    then show False using assms by blast
  qed
  then have "lastIndexFrom s w (length s - length w) = - 1"
    by (simp add: lastIndexFrom_none)
  then show ?thesis using False by (simp add: LastIndex_def)
qed

lemma LastIndex_found_last:
  assumes "LastIndex s w = int k" and "s = p' @ w @ r'"
  shows "length p' \<le> k"
proof (rule ccontr)
  assume "\<not> length p' \<le> k"
  then have k: "k < length p'" by simp
  have len: "length p' \<le> length s - length w" and "\<not> length s < length w"
    and here: "take (length w) (drop (length p') s) = w"
    using assms(2) by auto
  then have "lastIndexFrom s w (length s - length w) = int k"
    using assms(1) by (simp add: LastIndex_def)
  then have "\<forall>j. k < j \<and> j \<le> length s - length w \<longrightarrow> take (length w) (drop j s) \<noteq> w"
    by (simp add: lastIndexFrom_some)
  then show False using k len here by blast
qed

lemma LastIndex_absent:
  assumes "LastIndex s w = - 1"
  shows "\<nexists>p r. s = p @ w @ r"
proof
  assume "\<exists>p r. s = p @ w @ r"
  then obtain p r where s: "s = p @ w @ r" by blast
  then have len: "length p \<le> length s - length w" and nl: "\<not> length s < length w"
    and here: "take (length w) (drop (length p) s) = w"
    by auto
  have "lastIndexFrom s w (length s - length w) = - 1"
    using assms nl by (simp add: LastIndex_def)
  then show False using len here by (simp add: lastIndexFrom_none)
qed

lemma getStringAfterWord_last:
  assumes "s = p @ w @ r" and "\<forall>p' r'. s = p' @ w @ r' \<longrightarrow> length p' \<le> length p"
  shows "getStringAfterWord s w = r"
proof -
  have "LastIndex s w = int (length p)" using assms by (rule LastIndex_last)
  then show ?thesis using assms(1)
    by (auto simp: getStringAfterWord_def Let_def)
qed

lemma getStringAfterWord_none:
  assumes "\<nexists>p r. s = p @ w @ r"
  shows "getStringAfterWord s w = ''''"
  using LastIndex_none [OF assms] by (simp add: getStringAfterWord_def)

lemma getStringAfterWord_final:
  assumes "s = p @ w"
  shows "getStringAfterWord s w = ''''"
proof -
  have "s = p @ w @ []" using assms by simp
  moreover have "\<forall>p' r'. s = p' @ w @ r' \<longrightarrow> length p' \<le> length p"
  proof (intro allI impI)
    fix p' r' assume "s = p' @ w @ r'"
    then have "length s = length p' + length w + length r'" by simp
    then show "length p' \<le> length p" using assms by simp
  qed
  ultimately show ?thesis by (rule getStringAfterWord_last)
qed

lemma ImagebinUpload_body:
  assumes "mw_CreateFormFile w ''file'' filename = None"
    and "http_Post w ''https://imagebin.ca/upload.php'' (FormDataContentType w)
           (Multipart (multipartForm w filename)) = Inr (Inr bdy)"
  shows "ImagebinUpload w filename =
           Returns (\<lparr>Status = (getStringAfterWord bdy ''url:'' \<noteq> ''''),
                     FullURL = getStringAfterWord bdy ''url:'', ShortURL = ''''\<rparr>, None)"
  using assms by (simp add: ImagebinUpload_def Let_def)

section \<open>Text-marker extraction and the image host\<close>

text \<open>
  Claim C4. For every response body, \<open>getStringAfterWord\<close> with the marker \<open>url:\<close>
  returns the text after the last occurrence of the marker. When the marker is absent,
  or the body ends with it, the extraction returns the empty string, and
  \<open>ImagebinUpload\<close>, given that the form could be written and the server answered with
  that body, returns Status false, FullURL empty and a nil error.
\<close>

theorem imagebin_url_extraction:
  "(bdy = p @ ''url:'' @ r \<and> (\<forall>p' r'. bdy = p' @ ''url:'' @ r' \<longrightarrow> length p' \<le> length p)
      \<longrightarrow> getStringAfterWord bdy ''url:'' = r) \<and>
   ((\<nexists>p r. bdy = p @ ''url:'' @ r) \<or> (\<exists>p. bdy = p @ ''url:'')
      \<longrightarrow> getStringAfterWord bdy ''url:'' = '''' \<and>
          (mw_CreateFormFile w ''file'' filename = None \<and>
           http_Post w ''https://imagebin.ca/upload.php'' (FormDataContentType w)
             (Multipart (multipartForm w filename)) = Inr (Inr bdy)
           \<longrightarrow> ImagebinUpload w filename =
                 Returns (\<lparr>Status = False, FullURL = '''', ShortURL = ''''\<rparr>, None)))"
proof (intro conjI impI)
  assume a: "bdy = p @ ''url:'' @ r \<and>
          (\<forall>p' r'. bdy = p' @ ''url:'' @ r' \<longrightarrow> length p' \<le> length p)"
  show "getStringAfterWord bdy ''url:'' = r"
    by (rule getStringAfterWord_last [OF conjunct1 [OF a] conjunct2 [OF a]])
next
  assume a: "(\<nexists>p r. bdy = p @ ''url:'' @ r) \<or> (\<exists>p. bdy = p @ ''url:'')"
  then show e: "getStringAfterWord bdy ''url:'' = ''''"
  proof
    assume "\<nexists>p r. bdy = p @ ''url:'' @ r"
    then show ?thesis by (rule getStringAfterWord_none)
  next
    assume "\<exists>p. bdy = p @ ''url:''"
    then obtain p where "bdy = p @ ''url:''" ..
    then show ?thesis by (rule getStringAfterWord_final)
  qed
  assume n: "mw_CreateFormFile w ''file'' filename = None \<and>
          http_Post w ''https://imagebin.ca/upload.php'' (FormDataContentType w)
            (Multipart (multipartForm w filename)) = Inr (Inr bdy)"
  show "ImagebinUpload w filename =
             Returns (\<lparr>Status = False, FullURL = '''', ShortURL = ''''\<rparr>, None)"
    unfolding ImagebinUpload_body [OF conjunct1 [OF n] conjunct2 [OF n]] e by simp
qed

text \<open>
  C4 at the spec's inputs: the last of two markers wins, a body with no marker and a
  body ending in the marker give the empty string and the result without a URL.
\<close>

theorem imagebin_url_extraction_witness:
  "getStringAfterWord ''...foo url:http://x url:http://y'' ''url:'' = ''http://y'' \<and>
   getStringAfterWord ''upload failed'' ''url:'' = '''' \<and>
   ImagebinUpload (testWorld ''upload failed'') ''/tmp/a.txt'' =
     Returns (\<lparr>Status = False, FullURL = '''', ShortURL = ''''\<rparr>, None) \<and>
   getStringAfterWord ''ok url:'' ''url:'' = '''' \<and>
   ImagebinUpload (testWorld ''ok url:'') ''/tmp/a.txt'' =
     Returns (\<lparr>Status = False, FullURL = '''', ShortURL = ''''\<rparr>, None)"
proof -
  let ?s = "''...foo url:http://x url:http://y''"
  let ?p = "''...foo url:http://x ''"
  have split: "?s = ?p @ ''url:'' @ ''http://y''" by simp
  have "LastIndex ?s ''url:'' = 20"
    by (simp add: LastIndex_def numeral_eq_Suc)
  then have idx: "LastIndex ?s ''url:'' = int (length ?p)" by simp
  have last: "\<forall>p' r'. ?s = p' @ ''url:'' @ r' \<longrightarrow> length p' \<le> length ?p"
  proof (intro allI impI)
    fix p' r' assume o: "?s = p' @ ''url:'' @ r'"
    show "length p' \<le> length ?p" by (rule LastIndex_found_last [OF idx o])
  qed
  have "LastIndex ''upload failed'' ''url:'' = - 1"
    by (simp add: LastIndex_def numeral_eq_Suc)
  then have absent: "\<nexists>p r. ''upload failed'' = p @ ''url:'' @ r"
    by (rule LastIndex_absent)
  have final: "\<exists>p. ''ok url:'' = p @ ''url:''"
    by (rule exI [of _ "''ok ''"]) simp
  have form: "mw_CreateFormFile (testWorld b) ''file'' ''/tmp/a.txt'' = None \<and>
      http_Post (testWorld b) ''https://imagebin.ca/upload.php''
        (FormDataContentType (testWorld b))
        (Multipart (multipartForm (testWorld b) ''/tmp/a.txt'')) = Inr (Inr b)" for b
    by (simp add: world_simps)
  note t1 = imagebin_url_extraction [of ?s ?p "''http://y''", THEN conjunct1, THEN mp,
      OF conjI, OF split last]
  note t2 = imagebin_url_extraction [of "''upload failed''" _ _ "testWorld ''upload failed''"
      "''/tmp/a.txt''", THEN conjunct2, THEN mp, OF disjI1, OF absent]
  note t3 = imagebin_url_extraction [of "''ok url:''" _ _ "testWorld ''ok url:''"
      "''/tmp/a.txt''", THEN conjunct2, THEN mp, OF disjI2, OF final]
  from t1 t2 [THEN conjunct1] t2 [THEN conjunct2, THEN mp, OF form]
    t3 [THEN conjunct1] t3 [THEN conjunct2, THEN mp, OF form]
  show ?thesis by (intro conjI)
qed

section \<open>Status and URL of a returned result\<close>

lemma FilebinUpload_status:
  "FilebinUpload w filename = Returns (r, None) \<Longrightarrow> Status r \<longleftrightarrow> FullURL r \<noteq> ''''"
  by (auto simp: FilebinUpload_def Let_def split: option.splits sum.splits if_splits)

lemma ImagebinUpload_status:
  "ImagebinUpload w filename = Returns (r, None) \<Longrightarrow> Status r \<longleftrightarrow> FullURL r \<noteq> ''''"
  by (auto simp: ImagebinUpload_def Let_def split: option.splits sum.splits if_splits)

lemma uploadFile_status:
  assumes "uploadFile w filename destURI = Returns (r, None)"
  shows "\<exists>bdy s.
       http_Post w destURI (FormDataContentType w) (Multipart (multipartForm w filename)) =
         Inr (Inr bdy) \<and>
       json_Unmarshal_AnonFiles w bdy = Inr s \<and>
       r = \<lparr>Status = AnonFilesSuccess.Status s, FullURL = Full (URL (File (Data s))),
            ShortURL = Short (URL (File (Data s)))\<rparr>"
proof -
  from assms obtain bdy s
    where "http_Post w destURI (FormDataContentType w) (Multipart (multipartForm w filename)) =
             Inr (Inr bdy)"
      and "json_Unmarshal_AnonFiles w bdy = Inr s"
      and "r = \<lparr>Status = AnonFilesSuccess.Status s, FullURL = Full (URL (File (Data s))),
                ShortURL = Short (URL (File (Data s)))\<rparr>"
    by (auto simp: uploadFile_def Let_def split: option.splits sum.splits)
  then show ?thesis
    by (intro exI [of _ bdy] exI [of _ s] conjI)
qed

text \<open>
  Claim C1, as amended. When \<open>FilebinUpload\<close> or \<open>ImagebinUpload\<close> returns with a nil
  error, Status is true if and only if FullURL is not empty. When \<open>AnonFilesUpload\<close> or
  \<open>BayFilesUpload\<close> returns with a nil error, the server answered the posted form with a
  body that was decoded, and Status, FullURL and ShortURL are the fields \<open>status\<close>,
  \<open>data.file.url.full\<close> and \<open>data.file.url.short\<close> of that decoded response, copied as
  they are.
\<close>

theorem status_reflects_url:
  "(FilebinUpload w filename = Returns (r, None) \<longrightarrow> (Status r \<longleftrightarrow> FullURL r \<noteq> '''')) \<and>
   (ImagebinUpload w filename = Returns (r, None) \<longrightarrow> (Status r \<longleftrightarrow> FullURL r \<noteq> '''')) \<and>
   (AnonFilesUpload w filename = Returns (r, None) \<longrightarrow>
      (\<exists>bdy s.
         http_Post w ''https://api.anonfiles.com/upload'' (FormDataContentType w)
           (Multipart (multipartForm w filename)) = Inr (Inr bdy) \<and>
         json_Unmarshal_AnonFiles w bdy = Inr s \<and>
         r = \<lparr>Status = AnonFilesSuccess.Status s, FullURL = Full (URL (File (Data s))),
              ShortURL = Short (URL (File (Data s)))\<rparr>)) \<and>
   (BayFilesUpload w filename = Returns (r, None) \<longrightarrow>
      (\<exists>bdy s.
         http_Post w ''https://api.bayfiles.com/upload'' (FormDataContentType w)
           (Multipart (multipartForm w filename)) = Inr (Inr bdy) \<and>
         json_Unmarshal_AnonFiles w bdy = Inr s \<and>
         r = \<lparr>Status = AnonFilesSuccess.Status s, FullURL = Full (URL (File (Data s))),
              ShortURL = Short (URL (File (Data s)))\<rparr>))"
proof (intro conjI impI)
  assume "FilebinUpload w filename = Returns (r, None)"
  then show "Status r \<longleftrightarrow> FullURL r \<noteq> ''''" by (rule FilebinUpload_status)
next
  assume "ImagebinUpload w filename = Returns (r, None)"
  then show "Status r \<longleftrightarrow> FullURL r \<noteq> ''''" by (rule ImagebinUpload_status)
next
  assume "AnonFilesUpload w filename = Returns (r, None)"
  then have "uploadFile w filename ''https://api.anonfiles.com/upload'' = Returns (r, None)"
    by (simp only: AnonFilesUpload_def)
  then show "\<exists>bdy s.
         http_Post w ''https://api.anonfiles.com/upload'' (FormDataContentType w)
           (Multipart (multipartForm w filename)) = Inr (Inr bdy) \<and>
         json_Unmarshal_AnonFiles w bdy = Inr s \<and>
         r = \<lparr>Status = AnonFilesSuccess.Status s, FullURL = Full (URL (File (Data s))),
              ShortURL = Short (URL (File (Data s)))\<rparr>"
    by (rule uploadFile_status)
next
  assume "BayFilesUpload w filename = Returns (r, None)"
  then have "uploadFile w filename ''https://api.bayfiles.com/upload'' = Returns (r, None)"
    by (simp only: BayFilesUpload_def)
  then show "\<exists>bdy s.
         http_Post w ''https://api.bayfiles.com/upload'' (FormDataContentType w)
           (Multipart (multipartForm w filename)) = Inr (Inr bdy) \<and>
         json_Unmarshal_AnonFiles w bdy = Inr s \<and>
         r = \<lparr>Status = AnonFilesSuccess.Status s, FullURL = Full (URL (File (Data s))),
              ShortURL = Short (URL (File (Data s)))\<rparr>"
    by (rule uploadFile_status)
qed

text \<open>
  C1 as amended, at the spec's end-to-end inputs: each entry point returns with a nil
  error, and the result is as stated.
\<close>

theorem status_reflects_url_witness:
  \<open>FilebinUpload (testWorld ''{"links":[{"href":"a"},{"href":"b"}]}'') ''/tmp/a.txt'' =
     Returns (\<lparr>Status = True, FullURL = ''b'', ShortURL = ''''\<rparr>, None) \<and>
   ImagebinUpload (testWorld ''...url:https://imagebin.ca/abc123'') ''/tmp/a.txt'' =
     Returns (\<lparr>Status = True, FullURL = ''https://imagebin.ca/abc123'', ShortURL = ''''\<rparr>, None) \<and>
   AnonFilesUpload (testWorld ''{"status":true,"data":{"file":{"url":{"full":"https://anonfiles.com/x","short":"https://afiles.io/x"}}}}'') ''/tmp/a.txt'' =
     Returns (\<lparr>Status = True, FullURL = ''https://anonfiles.com/x'',
               ShortURL = ''https://afiles.io/x''\<rparr>, None) \<and>
   BayFilesUpload (testWorld ''{"status":true,"data":{"file":{"url":{"full":"https://anonfiles.com/x","short":"https://afiles.io/x"}}}}'') ''/tmp/a.txt'' =
     Returns (\<lparr>Status = True, FullURL = ''https://anonfiles.com/x'',
               ShortURL = ''https://afiles.io/x''\<rparr>, None)\<close>
proof -
  have f: \<open>FilebinUpload (testWorld ''{"links":[{"href":"a"},{"href":"b"}]}'') ''/tmp/a.txt'' =
     Returns (\<lparr>Status = True, FullURL = ''b'', ShortURL = ''''\<rparr>, None)\<close>
    by (simp add: FilebinUpload_def world_simps)
  have "getStringAfterWord ''...url:https://imagebin.ca/abc123'' ''url:'' = ''https://imagebin.ca/abc123''"
    by (simp add: getStringAfterWord_def LastIndex_def numeral_eq_Suc)
  then have i: "ImagebinUpload (testWorld ''...url:https://imagebin.ca/abc123'') ''/tmp/a.txt'' =
     Returns (\<lparr>Status = True, FullURL = ''https://imagebin.ca/abc123'', ShortURL = ''''\<rparr>, None)"
    by (simp add: ImagebinUpload_def world_simps)
  have a: \<open>uploadFile (testWorld ''{"status":true,"data":{"file":{"url":{"full":"https://anonfiles.com/x","short":"https://afiles.io/x"}}}}'') ''/tmp/a.txt'' d =
     Returns (\<lparr>Status = True, FullURL = ''https://anonfiles.com/x'',
               ShortURL = ''https://afiles.io/x''\<rparr>, None)\<close> for d
    by (simp add: uploadFile_def world_simps)
  show ?thesis
    using f i a
      status_reflects_url [of \<open>testWorld ''{"links":[{"href":"a"},{"href":"b"}]}''\<close> "''/tmp/a.txt''"
        "\<lparr>Status = True, FullURL = ''b'', ShortURL = ''''\<rparr>"]
    by (simp add: AnonFilesUpload_def BayFilesUpload_def)
qed

text \<open>
  The claim C1 as it is written fails for the two file hosts: a response whose \<open>status\<close>
  is true and which carries no URL gives Status true with an empty FullURL and a nil
  error.
\<close>

theorem anonfiles_status_without_url:
  \<open>AnonFilesUpload (testWorld ''{"status":true}'') ''/tmp/a.txt'' =
     Returns (\<lparr>Status = True, FullURL = '''', ShortURL = ''''\<rparr>, None)\<close>
  by (simp add: AnonFilesUpload_def uploadFile_def world_simps)

section \<open>The filebin link list\<close>

text \<open>
  Claim C2, evaluated. On a decoded response with no link, and on one with a single
  link, \<open>FilebinUpload\<close> does not return an error: reading \<open>Links[1]\<close> panics with an
  index out of range.
\<close>

theorem filebin_short_links_panics:
  \<open>FilebinUpload (testWorld ''{"links":[]}'') ''/tmp/a.txt'' = Panics (IndexOutOfRange 1 0) \<and>
   FilebinUpload (testWorld ''{"links":[{"href":"a"}]}'') ''/tmp/a.txt'' =
     Panics (IndexOutOfRange 1 1)\<close>
  by (simp add: FilebinUpload_def world_simps)

text \<open>
  Claim C10. When the request of \<open>FilebinUpload\<close> was answered, the body decoded, the
  decoded response has at least two links and the second link's \<open>href\<close> is empty, the
  call returns Status false, FullURL empty and a nil error.
\<close>

theorem filebin_empty_href:
  assumes "os_Open w filename = Inr f"
    and "http_NewRequest w ''POST'' ''https://filebin.net'' = None"
    and "http_Do w (filebinRequest filename f) = Inr (Inr bdy)"
    and "json_Unmarshal_Filebin w bdy = Inr s"
    and "2 \<le> length (Links s)"
    and "Href (Links s ! 1) = ''''"
  shows "FilebinUpload w filename =
           Returns (\<lparr>Status = False, FullURL = '''', ShortURL = ''''\<rparr>, None)"
  using assms by (simp add: FilebinUpload_def)

text \<open>C10 at a response of two links whose second \<open>href\<close> is empty.\<close>

theorem filebin_empty_href_witness:
  \<open>FilebinUpload (testWorld ''{"links":[{"href":"a"},{"href":""}]}'') ''/tmp/a.txt'' =
     Returns (\<lparr>Status = False, FullURL = '''', ShortURL = ''''\<rparr>, None)\<close>
proof -
  let ?w = \<open>testWorld ''{"links":[{"href":"a"},{"href":""}]}''\<close>
  let ?s = "\<lparr>Links = [\<lparr>Href = ''a''\<rparr>, \<lparr>Href = ''''\<rparr>]\<rparr>"
  have 1: "os_Open ?w ''/tmp/a.txt'' = Inr ''0123456789''"
    by (simp add: testWorld_def)
  have 2: "http_NewRequest ?w ''POST'' ''https://filebin.net'' = None"
    by (simp add: testWorld_def)
  have 3: \<open>http_Do ?w (filebinRequest ''/tmp/a.txt'' ''0123456789'') =
             Inr (Inr ''{"links":[{"href":"a"},{"href":""}]}'')\<close>
    by (simp add: testWorld_def)
  have 4: \<open>json_Unmarshal_Filebin ?w ''{"links":[{"href":"a"},{"href":""}]}'' = Inr ?s\<close>
    by (simp add: testWorld_def decodeFilebin_def)
  have 5: "2 \<le> length (Links ?s)" by simp
  have 6: "Href (Links ?s ! 1) = ''''" by simp
  show ?thesis by (rule filebin_empty_href [OF 1 2 3 4 5 6])
qed

section \<open>The multipart uploads\<close>

text \<open>
  Claim C3, evaluated. \<open>/tmp/missing.txt\<close> cannot be opened, and still
  \<open>AnonFilesUpload\<close>, \<open>BayFilesUpload\<close> and \<open>ImagebinUpload\<close> post the form and return
  the server's answer with a nil error, where \<open>FilebinUpload\<close> returns the error of
  \<open>os.Open\<close>.
\<close>

theorem multipart_upload_ignores_open_error:
  \<open>os_Open (testWorld reply) ''/tmp/missing.txt'' =
     Inl (Error ''open: no such file or directory'') \<and>
   multipartForm (testWorld reply) ''/tmp/missing.txt'' =
     [\<lparr>FieldName = ''file'', FileName = ''/tmp/missing.txt'', Content = ''''\<rparr>] \<and>
   AnonFilesUpload (testWorld ''{"status":true,"data":{"file":{"url":{"full":"https://anonfiles.com/x","short":"https://afiles.io/x"}}}}'') ''/tmp/missing.txt'' =
     Returns (\<lparr>Status = True, FullURL = ''https://anonfiles.com/x'',
               ShortURL = ''https://afiles.io/x''\<rparr>, None) \<and>
   BayFilesUpload (testWorld ''{"status":true,"data":{"file":{"url":{"full":"https://anonfiles.com/x","short":"https://afiles.io/x"}}}}'') ''/tmp/missing.txt'' =
     Returns (\<lparr>Status = True, FullURL = ''https://anonfiles.com/x'',
               ShortURL = ''https://afiles.io/x''\<rparr>, None) \<and>
   ImagebinUpload (testWorld ''url:https://imagebin.ca/abc123'') ''/tmp/missing.txt'' =
     Returns (\<lparr>Status = True, FullURL = ''https://imagebin.ca/abc123'', ShortURL = ''''\<rparr>, None) \<and>
   FilebinUpload (testWorld reply) ''/tmp/missing.txt'' =
     Returns (\<lparr>Status = False, FullURL = '''', ShortURL = ''''\<rparr>,
              Some (Error ''open: no such file or directory''))\<close>
proof -
  have "getStringAfterWord ''url:https://imagebin.ca/abc123'' ''url:'' = ''https://imagebin.ca/abc123''"
    by (simp add: getStringAfterWord_def LastIndex_def numeral_eq_Suc)
  then show ?thesis
    by (simp add: AnonFilesUpload_def BayFilesUpload_def uploadFile_def ImagebinUpload_def
        FilebinUpload_def world_simps)
qed

text \<open>
  Claim C6, evaluated. For the path \<open>/tmp/a.txt\<close> the form has one part, its field is
  \<open>file\<close> and it carries the file's bytes, but its file name is the whole path and not
  the base name \<open>a.txt\<close>: a server that answers with the file name it received makes
  \<open>ImagebinUpload\<close> return the path.
\<close>

theorem multipart_part_carries_full_path:
  "multipartForm (testWorld '''') ''/tmp/a.txt'' =
     [\<lparr>FieldName = ''file'', FileName = ''/tmp/a.txt'', Content = ''0123456789''\<rparr>] \<and>
   Base ''/tmp/a.txt'' = ''a.txt'' \<and>
   ImagebinUpload echoWorld ''/tmp/a.txt'' =
     Returns (\<lparr>Status = True, FullURL = ''/tmp/a.txt'', ShortURL = ''''\<rparr>, None)"
proof -
  have "getStringAfterWord ''url:/tmp/a.txt'' ''url:'' = ''/tmp/a.txt''"
    by (simp add: getStringAfterWord_def LastIndex_def numeral_eq_Suc)
  then show ?thesis
    by (simp add: ImagebinUpload_def world_simps Base_def)
qed

section \<open>The error path\<close>

lemma uploadFile_error:
  "uploadFile w filename destURI = Returns (r, Some e) \<Longrightarrow> r = zeroResponse"
  by (auto simp: uploadFile_def zeroResponse_def Let_def split: option.splits sum.splits)

lemma FilebinUpload_error:
  "FilebinUpload w filename = Returns (r, Some e) \<Longrightarrow> r = zeroResponse"
  by (auto simp: FilebinUpload_def zeroResponse_def Let_def
      split: option.splits sum.splits if_splits)

lemma ImagebinUpload_error:
  "ImagebinUpload w filename = Returns (r, Some e) \<Longrightarrow> r = zeroResponse"
  by (auto simp: ImagebinUpload_def zeroResponse_def Let_def
      split: option.splits sum.splits if_splits)

text \<open>
  Claim C9. Whenever \<open>uploadFile\<close>, \<open>AnonFilesUpload\<close>, \<open>BayFilesUpload\<close>,
  \<open>FilebinUpload\<close> or \<open>ImagebinUpload\<close> returns a non-nil error, the result returned
  with it is the zero value: Status false, FullURL and ShortURL empty.
\<close>

theorem upload_error_zero_response:
  "(uploadFile w filename destURI = Returns (r, Some e) \<longrightarrow> r = zeroResponse) \<and>
   (AnonFilesUpload w filename = Returns (r, Some e) \<longrightarrow> r = zeroResponse) \<and>
   (BayFilesUpload w filename = Returns (r, Some e) \<longrightarrow> r = zeroResponse) \<and>
   (FilebinUpload w filename = Returns (r, Some e) \<longrightarrow> r = zeroResponse) \<and>
   (ImagebinUpload w filename = Returns (r, Some e) \<longrightarrow> r = zeroResponse)"
  using uploadFile_error FilebinUpload_error ImagebinUpload_error
  by (simp add: AnonFilesUpload_def BayFilesUpload_def)

text \<open>C9 with no network: every entry point returns the transport's error.\<close>

theorem upload_error_zero_response_witness:
  "uploadFile offlineWorld ''/tmp/a.txt'' ''https://example.org/upload'' =
     Returns (zeroResponse, Some (Error ''dial tcp: network is unreachable'')) \<and>
   AnonFilesUpload offlineWorld ''/tmp/a.txt'' =
     Returns (zeroResponse, Some (Error ''dial tcp: network is unreachable'')) \<and>
   BayFilesUpload offlineWorld ''/tmp/a.txt'' =
     Returns (zeroResponse, Some (Error ''dial tcp: network is unreachable'')) \<and>
   FilebinUpload offlineWorld ''/tmp/a.txt'' =
     Returns (zeroResponse, Some (Error ''dial tcp: network is unreachable'')) \<and>
   ImagebinUpload offlineWorld ''/tmp/a.txt'' =
     Returns (zeroResponse, Some (Error ''dial tcp: network is unreachable''))"
proof -
  let ?r = "\<lparr>Status = False, FullURL = '''', ShortURL = ''''\<rparr>"
  let ?e = "Error ''dial tcp: network is unreachable''"
  have u: "uploadFile offlineWorld ''/tmp/a.txt'' d = Returns (?r, Some ?e)" for d
    by (simp add: uploadFile_def world_simps)
  have f: "FilebinUpload offlineWorld ''/tmp/a.txt'' = Returns (?r, Some ?e)"
    by (simp add: FilebinUpload_def world_simps)
  have i: "ImagebinUpload offlineWorld ''/tmp/a.txt'' = Returns (?r, Some ?e)"
    by (simp add: ImagebinUpload_def world_simps)
  have "?r = zeroResponse"
    by (rule upload_error_zero_response
      [of offlineWorld "''/tmp/a.txt''" "''https://example.org/upload''" ?r ?e,
        THEN conjunct1, THEN mp, OF u])
  then show ?thesis
    using u f i by (simp add: AnonFilesUpload_def BayFilesUpload_def)
qed

section \<open>Rounding to the nearest float64\<close>

lemma roundEven_bound: "\<bar>of_int (roundEven m) - m\<bar> \<le> 1 / 2"
  unfolding roundEven_def Let_def by (auto; linarith)

lemma floor_log2:
  fixes x :: real
  assumes "2 powr (of_int e) \<le> \<bar>x\<bar>" and "\<bar>x\<bar> < 2 powr (of_int e + 1)"
  shows "\<lfloor>log 2 \<bar>x\<bar>\<rfloor> = e"
proof -
  have "(0::real) < 2 powr (of_int e)" by simp
  then have x0: "0 < \<bar>x\<bar>" using assms(1) by linarith
  have "of_int e \<le> log 2 \<bar>x\<bar>" using assms(1) x0 by (simp add: le_log_iff)
  moreover have "log 2 \<bar>x\<bar> < of_int e + 1" using assms(2) x0 by (simp add: log_less_iff)
  ultimately show ?thesis by (simp add: floor_eq_iff)
qed

lemma float64_of_normal:
  fixes x :: real
  assumes lo: "2 powr (of_int e) \<le> \<bar>x\<bar>" and hi: "\<bar>x\<bar> < 2 powr (of_int e + 1)"
    and e1: "- 1022 \<le> e" and e2: "e \<le> 1022"
  shows "float64_of x =
           Finite (of_int (roundEven (x / 2 powr (of_int e - 52))) * 2 powr (of_int e - 52))"
proof -
  have "(0::real) < 2 powr (of_int e)" by simp
  then have x0: "x \<noteq> 0" using lo by auto
  have fl: "\<lfloor>log 2 \<bar>x\<bar>\<rfloor> = e" using lo hi by (rule floor_log2)
  define u :: real where "u = 2 powr (of_int e - 52)"
  have u0: "0 < u" by (simp add: u_def)
  define m where "m = x / u"
  define c :: real where "c = 2 powr 53"
  have c1: "1 / 2 \<le> c" by (simp add: c_def)
  have "\<bar>of_int (roundEven m) - m\<bar> \<le> 1 / 2" by (rule roundEven_bound)
  then have "\<bar>of_int (roundEven m)\<bar> \<le> \<bar>m\<bar> + 1 / 2" by linarith
  moreover have "\<bar>m\<bar> = \<bar>x\<bar> / u" using u0 by (simp add: m_def)
  moreover have "\<bar>x\<bar> / u < c"
  proof -
    have "u * c = 2 powr ((of_int e - 52) + 53)"
      unfolding u_def c_def by (rule powr_add [symmetric])
    also have "(of_int e - 52) + 53 = of_int e + (1::real)" by simp
    finally have "2 powr (of_int e + 1) = u * c" by simp
    then show ?thesis using hi u0 by (simp add: field_simps)
  qed
  ultimately have "\<bar>of_int (roundEven m)\<bar> < c + 1 / 2" by linarith
  then have "\<bar>of_int (roundEven m) * u\<bar> < (c + 1 / 2) * u"
    using u0 by (simp add: abs_mult)
  also have "\<dots> \<le> (c + c) * u" using u0 c1 by simp
  also have "\<dots> = 2 powr (of_int e + 2)"
  proof -
    have "c + c = 2 powr 54" unfolding c_def by simp
    then have "(c + c) * u = 2 powr 54 * 2 powr (of_int e - 52)" by (simp add: u_def)
    also have "\<dots> = 2 powr (54 + (of_int e - 52))" by (rule powr_add [symmetric])
    also have "54 + (of_int e - 52) = of_int e + (2::real)" by simp
    finally show ?thesis .
  qed
  also have "\<dots> \<le> 2 powr 1024"
    by (rule powr_mono) (use e2 in simp_all)
  finally have small: "\<bar>of_int (roundEven m) * u\<bar> < 2 ^ 1024" by simp
  have "max e (- 1022) = e" using e1 by simp
  then show ?thesis
    using x0 fl small by (simp add: float64_of_def Let_def u_def m_def)
qed


lemma float64_of_ge_one:
  fixes x :: real
  assumes "2 ^ k \<le> \<bar>x\<bar>" and "\<bar>x\<bar> < 2 ^ Suc k" and "k \<le> 1022"
  shows "float64_of x = Finite (of_int (roundEven (x * 2 ^ 52 / 2 ^ k)) * 2 ^ k / 2 ^ 52)"
proof -
  have p: "2 powr (of_int (int k)) = (2::real) ^ k" by (simp add: powr_realpow)
  have q: "2 powr (of_int (int k) + 1) = (2::real) ^ Suc k"
    by (simp add: powr_add powr_realpow)
  have u: "2 powr (of_int (int k) - 52) = (2::real) ^ k / 2 ^ 52"
    by (simp add: powr_diff powr_realpow)
  have "float64_of x = Finite (of_int (roundEven (x / 2 powr (of_int (int k) - 52)))
          * 2 powr (of_int (int k) - 52))"
    by (rule float64_of_normal) (use assms p q in simp_all)
  then show ?thesis unfolding u by simp
qed

lemma float64_of_lt_one:
  fixes x :: real
  assumes "1 \<le> \<bar>x\<bar> * 2 ^ k" and "\<bar>x\<bar> * 2 ^ k < 2" and "k \<le> 1022"
  shows "float64_of x = Finite (of_int (roundEven (x * 2 ^ 52 * 2 ^ k)) / (2 ^ 52 * 2 ^ k))"
proof -
  have k: "2 powr (real k) = (2::real) ^ k" by (simp add: powr_realpow)
  have c: "2 powr (52::real) = (2::real) ^ 52" by simp
  have p: "2 powr (of_int (- int k)) = 1 / (2::real) ^ k"
  proof -
    have "2 powr (- real k) = inverse (2 powr (real k))" by (rule powr_minus)
    then show ?thesis unfolding k by (simp add: inverse_eq_divide)
  qed
  have q: "2 powr (of_int (- int k) + 1) = 2 / (2::real) ^ k"
  proof -
    have "2 powr (1 - real k) = 2 powr 1 / 2 powr (real k)" by (rule powr_diff)
    then show ?thesis unfolding k by simp
  qed
  have u: "2 powr (of_int (- int k) - 52) = 1 / ((2::real) ^ 52 * 2 ^ k)"
  proof -
    have "2 powr (- real k - 52) = 2 powr (- real k) / 2 powr (52::real)" by (rule powr_diff)
    also have "2 powr (- real k) = inverse (2 powr (real k))" by (rule powr_minus)
    finally show ?thesis unfolding k c by (simp add: inverse_eq_divide)
  qed
  have "float64_of x = Finite (of_int (roundEven (x / 2 powr (of_int (- int k) - 52)))
          * 2 powr (of_int (- int k) - 52))"
  proof (rule float64_of_normal)
    have "0 < (2::real) ^ k" by simp
    then show "2 powr (of_int (- int k)) \<le> \<bar>x\<bar>"
      unfolding p using assms(1) by (simp add: pos_divide_le_eq)
    show "\<bar>x\<bar> < 2 powr (of_int (- int k) + 1)"
      unfolding q using assms(2) by (simp add: pos_less_divide_eq)
  qed (use assms(3) in simp_all)
  then show ?thesis unfolding u by (simp add: mult.assoc)
qed

text \<open>The float64 values the examples below go through.\<close>

lemma float64_of_examples:
  "float64_of 0 = Finite 0"
  "float64_of 1 = Finite 1"
  "float64_of 2 = Finite 2"
  "float64_of 3 = Finite 3"
  "float64_of (- 2) = Finite (- 2)"
  "float64_of (- 3) = Finite (- 3)"
  "float64_of (- (9 / 4)) = Finite (- (9 / 4))"
  "float64_of (5 / 2) = Finite (5 / 2)"
  "float64_of (1 / 2) = Finite (1 / 2)"
  "float64_of 100 = Finite 100"
  "float64_of (225 / 2) = Finite (225 / 2)"
  "float64_of (113 / 100) = Finite (1272266894732165 / 1125899906842624)"
  "float64_of (14707067533131775 / 140737488355328) = Finite (209 / 2)"
  "float64_of (21 / 20) = Finite (4728779608739021 / 4503599627370496)"
  "float64_of (26 / 25) = Finite (1170935903116329 / 1125899906842624)"
  using float64_of_def [of 0] float64_of_ge_one [of 0 1] float64_of_ge_one [of 1 2] float64_of_ge_one [of 1 3]
    float64_of_ge_one [of 1 "- 2"] float64_of_ge_one [of 1 "- 3"]
    float64_of_ge_one [of 1 "- 9 / 4"] float64_of_ge_one [of 1 "5 / 2"]
    float64_of_lt_one [of "1 / 2" 1] float64_of_ge_one [of 6 100]
    float64_of_ge_one [of 6 "225 / 2"] float64_of_ge_one [of 0 "113 / 100"]
    float64_of_ge_one [of 6 "14707067533131775 / 140737488355328"]
    float64_of_ge_one [of 0 "21 / 20"] float64_of_ge_one [of 0 "26 / 25"]
  by (simp_all add: roundEven_def)

section \<open>Rounding and the size formatter\<close>






lemma fdiv_NegInf: "fdiv NegInf y = NegInf \<or> fdiv NegInf y = PosInf \<or> fdiv NegInf y = NaN"
  by (cases y) simp_all

lemma prettySize_zero:
  "prettySize w (Finite 0) = Panics (IndexOutOfRange (- 9223372036854775808) 4)"
proof -
  define base where "base = fdiv (Log w (Finite 0)) (Log w (Finite 1024))"
  have "base = NegInf \<or> base = PosInf \<or> base = NaN"
    unfolding base_def using fdiv_NegInf [of "Log w (Finite 1024)"] by simp
  then have "float64_to_int (Floor base) = - 9223372036854775808"
    by auto
  then show ?thesis
    unfolding prettySize_def Let_def base_def [symmetric] by simp
qed

lemma CheckFile_stat_error:
  "os_Stat w filename = Inl err \<Longrightarrow> CheckFile w filename = Returns ('''', Some err)"
  by (simp add: CheckFile_def)

text \<open>
  Claim C5, evaluated. At 0 bytes \<open>math.Log\<close> gives \<open>-Inf\<close>, the quotient by
  \<open>math.Log(1024)\<close> is not finite whatever that returns, the index into \<open>suffixes\<close> is
  the conversion of a value that \<open>int\<close> cannot represent, and \<open>prettySize\<close> panics instead
  of giving a number and a unit.
\<close>

theorem prettySize_zero_panics:
  "prettySize w (Finite 0) = Panics (IndexOutOfRange (- 9223372036854775808) 4)"
  by (rule prettySize_zero)

text \<open>
  Claim C8, evaluated. For the path of an empty file \<open>os.Stat\<close> succeeds, and
  \<open>CheckFile\<close> returns neither a size string nor an error: it panics in \<open>prettySize\<close>.
\<close>

theorem CheckFile_empty_file_panics:
  "os_Stat (testWorld '''') ''/tmp/empty'' = Inr 0 \<and>
   CheckFile (testWorld '''') ''/tmp/empty'' =
     Panics (IndexOutOfRange (- 9223372036854775808) 4)"
proof -
  have "os_Stat (testWorld '''') ''/tmp/empty'' = Inr 0"
    by (simp add: testWorld_def)
  then show ?thesis
    by (simp add: CheckFile_def float64_of_examples prettySize_zero)
qed

end
